theory Spec2Isabelle
  imports Main
begin

section \<open>Strings and numbers of the host language\<close>

text \<open>
  A JavaScript string is modelled as a \<^typ>\<open>string\<close>. ASCII text stands for itself;
  text outside ASCII (the subtitles' Chinese lines, the user-facing messages) is held as
  the bytes of its UTF-8 encoding. The functions below only concatenate such text, compare
  it with the empty string, test an ASCII prefix or cut it at an ASCII full stop, and each
  of these gives the same result on the UTF-8 bytes as on the original code units.

  A number that the code converts to text is either \<open>NaN\<close> or a natural number.
\<close>

datatype number = NaN | Number nat

definition digit_char :: "nat \<Rightarrow> char" where
  "digit_char d = ''0123456789'' ! d"

function decimal :: "nat \<Rightarrow> string" where
  "decimal n = (if n < 10 then [digit_char n] else decimal (n div 10) @ [digit_char (n mod 10)])"
  by pat_completeness auto
termination
  by (relation "measure (\<lambda>n. n)") auto

declare decimal.simps [simp del]

text \<open>\<open>Number.prototype.toString\<close> on \<open>NaN\<close> and on a natural number.\<close>

definition toString :: "number \<Rightarrow> string" where
  "toString x = (case x of NaN \<Rightarrow> ''NaN'' | Number n \<Rightarrow> decimal n)"

text \<open>
  \<open>String.prototype.padStart(targetLength, padString)\<close>: the string itself when it is
  long enough or the filler is empty, else the filler repeated and cut to the missing
  length, in front of the string.
\<close>

definition padStart :: "nat \<Rightarrow> string \<Rightarrow> string \<Rightarrow> string" where
  "padStart targetLength padString s =
     (if targetLength \<le> length s \<or> padString = [] then s
      else take (targetLength - length s)
             (concat (replicate (targetLength - length s) padString)) @ s)"

text \<open>\<open>Array.prototype.join(sep)\<close> on an array of strings.\<close>

fun join :: "string \<Rightarrow> string list \<Rightarrow> string" where
  "join sep [] = []"
| "join sep [x] = x"
| "join sep (x # y # ys) = x @ sep @ join sep (y # ys)"

text \<open>
  \<open>String.prototype.split(sep)\<close> for a separator of one character: the pieces between
  the separators, always at least one piece.
\<close>

fun split_str :: "char \<Rightarrow> string \<Rightarrow> string list" where
  "split_str sep [] = [[]]"
| "split_str sep (c # cs) =
     (if c = sep then [] # split_str sep cs
      else (case split_str sep cs of
              [] \<Rightarrow> [[c]]
            | p # ps \<Rightarrow> (c # p) # ps))"

text \<open>\<open>String.prototype.startsWith(prefix)\<close>.\<close>

definition startsWith :: "string \<Rightarrow> string \<Rightarrow> bool" where
  "startsWith s p = (take (length p) s = p)"

section \<open>Dates\<close>

text \<open>
  \<open>new Date(ms)\<close> for an integer \<open>ms\<close>: a time value, or the invalid date when \<open>ms\<close>
  lies outside the range of time values (\<open>8.64e15\<close> milliseconds either side of the
  epoch). The UTC getters of an invalid date return \<open>NaN\<close>; of a valid one, the field of
  the time value, computed with flooring division.
\<close>

datatype date = Invalid_Date | Date int

definition new_Date :: "int \<Rightarrow> date" where
  "new_Date ms = (if \<bar>ms\<bar> \<le> 8640000000000000 then Date ms else Invalid_Date)"

definition getUTCHours :: "date \<Rightarrow> number" where
  "getUTCHours d =
     (case d of Invalid_Date \<Rightarrow> NaN | Date t \<Rightarrow> Number (nat ((t div 3600000) mod 24)))"

definition getUTCMinutes :: "date \<Rightarrow> number" where
  "getUTCMinutes d =
     (case d of Invalid_Date \<Rightarrow> NaN | Date t \<Rightarrow> Number (nat ((t div 60000) mod 60)))"

definition getUTCSeconds :: "date \<Rightarrow> number" where
  "getUTCSeconds d =
     (case d of Invalid_Date \<Rightarrow> NaN | Date t \<Rightarrow> Number (nat ((t div 1000) mod 60)))"

definition getUTCMilliseconds :: "date \<Rightarrow> number" where
  "getUTCMilliseconds d =
     (case d of Invalid_Date \<Rightarrow> NaN | Date t \<Rightarrow> Number (nat (t mod 1000)))"

section \<open>utils/helpers.ts\<close>

text \<open>
  The object shape of a subtitle segment. \<open>SubtitleSegment\<close> is the shape with the fields
  typed as the interface declares them; the helpers of this file are typed with it.
\<close>

record ('n, 's) segment =
  id_seg :: nat
  startMs :: 'n
  endMs :: 'n
  original :: 's
  translation :: 's

type_synonym SubtitleSegment = "(int, string) segment"

definition formatTime :: "int \<Rightarrow> string" where
  "formatTime ms =
     (let date = new_Date ms;
          hours = padStart 2 ''0'' (toString (getUTCHours date));
          minutes = padStart 2 ''0'' (toString (getUTCMinutes date));
          seconds = padStart 2 ''0'' (toString (getUTCSeconds date));
          milliseconds = padStart 3 ''0'' (toString (getUTCMilliseconds date))
      in hours @ '':'' @ minutes @ '':'' @ seconds @ '','' @ milliseconds)"

definition generateSRT :: "SubtitleSegment list \<Rightarrow> string" where
  "generateSRT segs =
     join ''\<newline>''
       (map (\<lambda>(index, seg).
               toString (Number (index + 1)) @ ''\<newline>'' @
               formatTime (startMs seg) @ '' --> '' @ formatTime (endMs seg) @ ''\<newline>'' @
               original seg @ ''\<newline>'' @
               translation seg @ ''\<newline>'')
          (enumerate 0 segs))"

section \<open>User-facing texts\<close>

text \<open>
  The texts of the source, each as the UTF-8 bytes of the literal: the two alerts of the
  file handlers, the two progress messages and the fallback error message of
  \<open>processAudio\<close>, and the messages of the two errors that \<open>transcribeAudio\<close> throws itself.
\<close>

definition msg_too_large :: string where
  "msg_too_large =
     [CHR 0xE6, CHR 0x96, CHR 0x87, CHR 0xE4, CHR 0xBB, CHR 0xB6, CHR 0xE8, CHR 0xBF, CHR 0x87,
      CHR 0xE5, CHR 0xA4, CHR 0xA7, CHR 0xE3, CHR 0x80, CHR 0x82, CHR 0xE8, CHR 0xAF, CHR 0xB7,
      CHR 0xE4, CHR 0xB8, CHR 0x8A, CHR 0xE4, CHR 0xBC, CHR 0xA0, CHR 0xE5, CHR 0xB0, CHR 0x8F,
      CHR 0xE4, CHR 0xBA, CHR 0x8E] @
     '' 15MB '' @
     [CHR 0xE7, CHR 0x9A, CHR 0x84, CHR 0xE9, CHR 0x9F, CHR 0xB3, CHR 0xE9, CHR 0xA2, CHR 0x91,
      CHR 0xE6, CHR 0x96, CHR 0x87, CHR 0xE4, CHR 0xBB, CHR 0xB6, CHR 0xE3, CHR 0x80, CHR 0x82]"

definition msg_invalid_drop :: string where
  "msg_invalid_drop =
     [CHR 0xE8, CHR 0xAF, CHR 0xB7, CHR 0xE6, CHR 0x8B, CHR 0x96, CHR 0xE6, CHR 0x94, CHR 0xBE,
      CHR 0xE6, CHR 0x9C, CHR 0x89, CHR 0xE6, CHR 0x95, CHR 0x88, CHR 0xE7, CHR 0x9A, CHR 0x84,
      CHR 0xE9, CHR 0x9F, CHR 0xB3, CHR 0xE9, CHR 0xA2, CHR 0x91, CHR 0xE6, CHR 0x88, CHR 0x96,
      CHR 0xE8, CHR 0xA7, CHR 0x86, CHR 0xE9, CHR 0xA2, CHR 0x91, CHR 0xE6, CHR 0x96, CHR 0x87,
      CHR 0xE4, CHR 0xBB, CHR 0xB6, CHR 0xE3, CHR 0x80, CHR 0x82]"

definition msg_preparing :: string where
  "msg_preparing =
     [CHR 0xE6, CHR 0xAD, CHR 0xA3, CHR 0xE5, CHR 0x9C, CHR 0xA8, CHR 0xE5, CHR 0x87, CHR 0x86,
      CHR 0xE5, CHR 0xA4, CHR 0x87, CHR 0xE9, CHR 0x9F, CHR 0xB3, CHR 0xE9, CHR 0xA2, CHR 0x91] @
     ''...''"

definition msg_listening :: string where
  "msg_listening =
     ''Gemini '' @
     [CHR 0xE6, CHR 0xAD, CHR 0xA3, CHR 0xE5, CHR 0x9C, CHR 0xA8, CHR 0xE8, CHR 0x81, CHR 0x86,
      CHR 0xE5, CHR 0x90, CHR 0xAC, CHR 0xE5, CHR 0xB9, CHR 0xB6, CHR 0xE7, CHR 0xBF, CHR 0xBB,
      CHR 0xE8, CHR 0xAF, CHR 0x91] @
     ''...''"

definition msg_unexpected :: string where
  "msg_unexpected =
     [CHR 0xE5, CHR 0x8F, CHR 0x91, CHR 0xE7, CHR 0x94, CHR 0x9F, CHR 0xE4, CHR 0xBA, CHR 0x86,
      CHR 0xE6, CHR 0x84, CHR 0x8F, CHR 0xE5, CHR 0xA4, CHR 0x96, CHR 0xE9, CHR 0x94, CHR 0x99,
      CHR 0xE8, CHR 0xAF, CHR 0xAF, CHR 0xE3, CHR 0x80, CHR 0x82]"

definition msg_missing_key :: string where
  "msg_missing_key =
     [CHR 0xE7, CHR 0xBC, CHR 0xBA, CHR 0xE5, CHR 0xB0, CHR 0x91] @
     '' API '' @
     [CHR 0xE5, CHR 0xAF, CHR 0x86, CHR 0xE9, CHR 0x92, CHR 0xA5, CHR 0xE3, CHR 0x80, CHR 0x82,
      CHR 0xE8, CHR 0xAF, CHR 0xB7, CHR 0xE6, CHR 0xA3, CHR 0x80, CHR 0xE6, CHR 0x9F, CHR 0xA5,
      CHR 0xE6, CHR 0x82, CHR 0xA8, CHR 0xE7, CHR 0x9A, CHR 0x84, CHR 0xE7, CHR 0x8E, CHR 0xAF,
      CHR 0xE5, CHR 0xA2, CHR 0x83, CHR 0xE9, CHR 0x85, CHR 0x8D, CHR 0xE7, CHR 0xBD, CHR 0xAE,
      CHR 0xE3, CHR 0x80, CHR 0x82]"

definition msg_no_response :: string where
  "msg_no_response =
     ''Gemini '' @
     [CHR 0xE6, CHR 0xB2, CHR 0xA1, CHR 0xE6, CHR 0x9C, CHR 0x89, CHR 0xE5, CHR 0x93, CHR 0x8D,
      CHR 0xE5, CHR 0xBA, CHR 0x94, CHR 0xE3, CHR 0x80, CHR 0x82]"

section \<open>services/gemini.ts\<close>

text \<open>
  What \<open>transcribeAudio\<close> and \<open>processAudio\<close> can see of a thrown value is its message
  (the empty string when it has none). The constructors name the place of the throw:
  the missing key, the remote call or its empty response, the parsing and mapping of the
  response text, the reading of the file. \<open>NullishError\<close> is a remote call rejected with
  \<open>undefined\<close> or \<open>null\<close>: reading the message of such a value throws in its turn.
\<close>

datatype exn =
    ConfigurationError
  | ServiceError string
  | ParseError string
  | ResourceError string
  | NullishError

text \<open>\<open>error.message\<close>; \<open>None\<close> when the read itself throws.\<close>

fun error_message :: "exn \<Rightarrow> string option" where
  "error_message ConfigurationError = Some msg_missing_key"
| "error_message (ServiceError m) = Some m"
| "error_message (ParseError m) = Some m"
| "error_message (ResourceError m) = Some m"
| "error_message NullishError = None"

definition MODEL_NAME :: string where
  "MODEL_NAME = ''gemini-3-flash-preview''"

text \<open>
  The request of \<open>generateContent\<close>: the model, the inline payload with its media type and
  the directive text. The system instruction and the response schema are the same
  constants in every request and are left out.
\<close>

record request =
  model :: string
  inline_mimeType :: string
  inline_data :: string
  directive :: string

text \<open>What the client does to the SDK, in order.\<close>

datatype sdk_call = new_GoogleGenAI string | generateContent request

text \<open>
  The remote call rejects with \<open>undefined\<close> or \<open>null\<close>, or rejects with a value that has
  a message (the empty string when it has none), or resolves to a response whose \<open>text\<close>
  may be absent.
\<close>

datatype response = Rejected_nullish | Rejected string | Response "string option"

text \<open>
  A value that \<open>JSON.parse\<close> returns. A number is held as an integer, which is what the
  response schema asks for; the mapping reads no property of a number. An object is
  held as its members in the order of the text, the last of two members with one key
  being the one that counts.
\<close>

datatype json =
    JNull
  | JBool bool
  | JNumber int
  | JString string
  | JArray "json list"
  | JObject "(string \<times> json) list"

text \<open>
  \<open>JSON.parse\<close> is a parameter: it gives the value, or the message of the \<open>SyntaxError\<close>
  it raises.
\<close>

type_synonym json_parse = "string \<Rightarrow> string + json"

text \<open>
  The messages of the \<open>TypeError\<close>s that the mapping can raise, in the wording of V8:
  \<open>parsed\<close> is \<open>null\<close>, \<open>parsed\<close> has no function \<open>map\<close>, an element is \<open>null\<close>.
\<close>

definition msg_null_map :: string where
  "msg_null_map = ''Cannot read properties of null (reading '' @ [CHR 0x27] @ ''map'' @ [CHR 0x27] @ '')''"

definition msg_not_a_function :: string where
  "msg_not_a_function = ''parsed.map is not a function''"

definition msg_null_property :: string where
  "msg_null_property =
     ''Cannot read properties of null (reading '' @ [CHR 0x27] @ ''startMs'' @ [CHR 0x27] @ '')''"

text \<open>
  \<open>item.p\<close> for an \<open>item\<close> other than \<open>null\<close> and a name \<open>p\<close> that no prototype defines:
  the member of an object, \<open>undefined\<close> (\<open>None\<close>) when the object has none or the item
  is not an object.
\<close>

definition property :: "json \<Rightarrow> string \<Rightarrow> json option" where
  "property item p = (case item of JObject members \<Rightarrow> map_of (rev members) p | _ \<Rightarrow> None)"

text \<open>
  A segment as the client builds it: the fields hold whatever the reads gave, since
  nothing checks them against the types \<open>SubtitleSegment\<close> declares.
\<close>

type_synonym any_segment = "(json option, json option) segment"

text \<open>
  The function passed to \<open>map\<close>. The first read, \<open>item.startMs\<close>, throws for \<open>null\<close>.
\<close>

definition to_segment :: "nat \<Rightarrow> json \<Rightarrow> exn + any_segment" where
  "to_segment index item =
     (case item of
        JNull \<Rightarrow> Inl (ParseError msg_null_property)
      | _ \<Rightarrow>
          Inr \<lparr>id_seg = index + 1,
               startMs = property item ''startMs'',
               endMs = property item ''endMs'',
               original = property item ''original'',
               translation = property item ''translation''\<rparr>)"

text \<open>
  \<open>Array.prototype.map\<close> with a function of the element and its index that may throw:
  the elements are visited in order and the first throw ends the call.
\<close>

fun array_map :: "(nat \<Rightarrow> json \<Rightarrow> exn + 'b) \<Rightarrow> nat \<Rightarrow> json list \<Rightarrow> exn + 'b list" where
  "array_map f index [] = Inr []"
| "array_map f index (item # items) =
     (case f index item of
        Inl e \<Rightarrow> Inl e
      | Inr y \<Rightarrow>
          (case array_map f (Suc index) items of
             Inl e \<Rightarrow> Inl e
           | Inr ys \<Rightarrow> Inr (y # ys)))"

text \<open>\<open>parsed.map(...)\<close>: only an array has the function.\<close>

definition parsed_map :: "json \<Rightarrow> exn + any_segment list" where
  "parsed_map parsed =
     (case parsed of
        JArray items \<Rightarrow> array_map to_segment 0 items
      | JNull \<Rightarrow> Inl (ParseError msg_null_map)
      | _ \<Rightarrow> Inl (ParseError msg_not_a_function))"

text \<open>\<open>transcribeAudio\<close> up to the point where it awaits \<open>generateContent\<close>.\<close>

definition transcribeAudio_call :: "string \<Rightarrow> string \<Rightarrow> string \<Rightarrow> (exn + request) \<times> sdk_call list" where
  "transcribeAudio_call base64Audio mimeType apiKey =
     (if apiKey = [] then (Inl ConfigurationError, [])
      else
        (let req = \<lparr>model = MODEL_NAME, inline_mimeType = mimeType, inline_data = base64Audio,
                     directive = ''Generate subtitles for this audio.''\<rparr>
         in (Inr req, [new_GoogleGenAI apiKey, generateContent req])))"

text \<open>\<open>transcribeAudio\<close> from the point where \<open>generateContent\<close> has settled.\<close>

definition transcribeAudio_resume :: "json_parse \<Rightarrow> response \<Rightarrow> exn + any_segment list" where
  "transcribeAudio_resume JSON_parse r =
     (case r of
        Rejected_nullish \<Rightarrow> Inl NullishError
      | Rejected m \<Rightarrow> Inl (ServiceError m)
      | Response jsonText \<Rightarrow>
          (case jsonText of
             None \<Rightarrow> Inl (ServiceError msg_no_response)
           | Some t \<Rightarrow>
               if t = [] then Inl (ServiceError msg_no_response)
               else
                 (case JSON_parse t of
                    Inl m \<Rightarrow> Inl (ParseError m)
                  | Inr parsed \<Rightarrow> parsed_map parsed)))"

text \<open>
  The whole of \<open>transcribeAudio\<close> against a service that answers each request: the
  result, and the calls made to the SDK.
\<close>

definition transcribeAudio ::
  "(request \<Rightarrow> response) \<Rightarrow> json_parse \<Rightarrow> string \<Rightarrow> string \<Rightarrow> string
     \<Rightarrow> (exn + any_segment list) \<times> sdk_call list" where
  "transcribeAudio service JSON_parse base64Audio mimeType apiKey =
     (case transcribeAudio_call base64Audio mimeType apiKey of
        (Inl e, calls) \<Rightarrow> (Inl e, calls)
      | (Inr req, calls) \<Rightarrow> (transcribeAudio_resume JSON_parse (service req), calls))"

section \<open>The application component\<close>

datatype status = idle | uploading | analyzing | completed | error

record ProcessingState =
  status :: status
  message :: "string option"

record File =
  name :: string
  type_file :: string
  size_file :: nat

definition MAX_FILE_SIZE :: nat where
  "MAX_FILE_SIZE = 15 * 1024 * 1024"

text \<open>
  An analysis in flight: \<open>processAudio\<close> suspended at one of its two awaits, with the file
  its closure holds.
\<close>

datatype stage = reading | transcribing

record job =
  job_file :: File
  job_stage :: stage

text \<open>
  The component's state (the object URL is held as the file it was made for; the
  segments are held as the client returned them), followed
  by what the component has done to the outside: the alerts shown, the invocations of
  \<open>transcribeAudio\<close> with their arguments, the calls that reached the SDK, and the
  analyses still in flight.
\<close>

record world =
  "file" :: "File option"
  audioUrl :: "File option"
  processingState :: ProcessingState
  segments :: "any_segment list"
  alerts :: "string list"
  transcribe_calls :: "(string \<times> string \<times> string) list"
  sdk_calls :: "sdk_call list"
  jobs :: "job list"

text \<open>The environment of a run: the configured API key and the JSON parser.\<close>

record env =
  API_KEY :: "string option"
  JSON_parse :: json_parse

definition initial :: world where
  "initial =
     \<lparr>file = None, audioUrl = None, processingState = \<lparr>status = idle, message = None\<rparr>,
      segments = [], alerts = [], transcribe_calls = [], sdk_calls = [], jobs = []\<rparr>"

definition alert :: "string \<Rightarrow> world \<Rightarrow> world" where
  "alert msg w = w\<lparr>alerts := alerts w @ [msg]\<rparr>"

definition handleFileChange :: "File list \<Rightarrow> world \<Rightarrow> world" where
  "handleFileChange files w =
     (case files of
        [] \<Rightarrow> w
      | selectedFile # _ \<Rightarrow>
          if size_file selectedFile > MAX_FILE_SIZE then alert msg_too_large w
          else w\<lparr>file := Some selectedFile,
                 audioUrl := Some selectedFile,
                 segments := [],
                 processingState := \<lparr>status = idle, message = None\<rparr>\<rparr>)"

definition handleDrop :: "File list \<Rightarrow> world \<Rightarrow> world" where
  "handleDrop files w =
     (case files of
        [] \<Rightarrow> w
      | selectedFile # _ \<Rightarrow>
          if startsWith (type_file selectedFile) ''audio/'' \<or>
             startsWith (type_file selectedFile) ''video/''
          then
            if size_file selectedFile > MAX_FILE_SIZE then alert msg_too_large w
            else w\<lparr>file := Some selectedFile,
                   audioUrl := Some selectedFile,
                   segments := [],
                   processingState := \<lparr>status = idle, message = None\<rparr>\<rparr>
          else alert msg_invalid_drop w)"

text \<open>The click handlers of the remove and the retry button.\<close>

definition onClick_remove :: "world \<Rightarrow> world" where
  "onClick_remove w =
     w\<lparr>file := None, segments := [], processingState := \<lparr>status = idle, message = None\<rparr>\<rparr>"

definition onClick_retry :: "world \<Rightarrow> world" where
  "onClick_retry w = w\<lparr>processingState := \<lparr>status = idle, message = None\<rparr>\<rparr>"

text \<open>
  \<open>processAudio\<close> in its three synchronous parts. The first runs at the click and
  suspends at \<open>await blobToBase64(file)\<close>.
\<close>

definition processAudio :: "world \<Rightarrow> world" where
  "processAudio w =
     (case file w of
        None \<Rightarrow> w
      | Some f \<Rightarrow>
          w\<lparr>processingState := \<lparr>status = uploading, message = Some msg_preparing\<rparr>,
             jobs := jobs w @ [\<lparr>job_file = f, job_stage = reading\<rparr>]\<rparr>)"

definition remove_job :: "nat \<Rightarrow> world \<Rightarrow> world" where
  "remove_job i w = w\<lparr>jobs := take i (jobs w) @ drop (Suc i) (jobs w)\<rparr>"

text \<open>
  The \<open>catch\<close> block. When the read of \<open>error.message\<close> throws, the block is left before
  the state is set, and the state stays as it was.
\<close>

definition processAudio_catch :: "exn \<Rightarrow> world \<Rightarrow> world" where
  "processAudio_catch e w =
     (case error_message e of
        None \<Rightarrow> w
      | Some m \<Rightarrow>
          w\<lparr>processingState :=
              \<lparr>status = error, message = Some (if m = [] then msg_unexpected else m)\<rparr>\<rparr>)"

text \<open>
  The second part runs when the reading of job \<open>i\<close> has settled, with a rejection's
  message or with the base64 text. It invokes \<open>transcribeAudio\<close>, which throws at once
  for an empty key and otherwise suspends at the remote call.
\<close>

definition processAudio_read :: "env \<Rightarrow> nat \<Rightarrow> string + string \<Rightarrow> world \<Rightarrow> world" where
  "processAudio_read ev i r w =
     (case r of
        Inl m \<Rightarrow> processAudio_catch (ResourceError m) (remove_job i w)
      | Inr base64 \<Rightarrow>
          (let f = job_file (jobs w ! i);
               mimeType = (if type_file f = [] then ''audio/mp3'' else type_file f);
               w1 = w\<lparr>processingState := \<lparr>status = analyzing, message = Some msg_listening\<rparr>\<rparr>;
               apiKey = (case API_KEY ev of None \<Rightarrow> [] | Some k \<Rightarrow> if k = [] then [] else k);
               w2 = w1\<lparr>transcribe_calls := transcribe_calls w1 @ [(base64, mimeType, apiKey)]\<rparr>
           in (case transcribeAudio_call base64 mimeType apiKey of
                 (Inl e, calls) \<Rightarrow>
                   processAudio_catch e (remove_job i (w2\<lparr>sdk_calls := sdk_calls w2 @ calls\<rparr>))
               | (Inr req, calls) \<Rightarrow>
                   w2\<lparr>sdk_calls := sdk_calls w2 @ calls,
                      jobs := (jobs w2)[i := (jobs w2 ! i)\<lparr>job_stage := transcribing\<rparr>]\<rparr>)))"

text \<open>The third part runs when the remote call of job \<open>i\<close> has settled.\<close>

definition processAudio_done :: "env \<Rightarrow> nat \<Rightarrow> response \<Rightarrow> world \<Rightarrow> world" where
  "processAudio_done ev i r w =
     (case transcribeAudio_resume (JSON_parse ev) r of
        Inl e \<Rightarrow> processAudio_catch e (remove_job i w)
      | Inr result \<Rightarrow>
          (remove_job i w)\<lparr>segments := result,
                            processingState := \<lparr>status = completed, message = None\<rparr>\<rparr>)"

text \<open>
  A segment of the state read at the types that \<open>SubtitleSegment\<close> declares, when its
  fields have them.
\<close>

definition declared :: "any_segment \<Rightarrow> SubtitleSegment option" where
  "declared seg =
     (case (startMs seg, endMs seg, original seg, translation seg) of
        (Some (JNumber a), Some (JNumber b), Some (JString c), Some (JString d)) \<Rightarrow>
          Some \<lparr>id_seg = id_seg seg, startMs = a, endMs = b, original = c, translation = d\<rparr>
      | _ \<Rightarrow> None)"

text \<open>
  \<open>handleDownloadSRT\<close>: the name and the text of the file offered for download.
  \<open>file?.name.split('.')[0]\<close> is undefined without a file; an undefined or empty piece
  gives way to \<open>subtitle\<close>. The text is that of \<open>generateSRT\<close> when every segment of
  the state is as declared; for other segments it is left open (\<open>None\<close>).
\<close>

definition handleDownloadSRT :: "world \<Rightarrow> string \<times> string option" where
  "handleDownloadSRT w =
     (let text = map_option generateSRT (those (map declared (segments w)));
          piece = (case file w of
                     None \<Rightarrow> None
                   | Some f \<Rightarrow>
                       (case split_str CHR ''.'' (name f) of [] \<Rightarrow> None | p # _ \<Rightarrow> Some p));
          download = (case piece of
                        None \<Rightarrow> ''subtitle''
                      | Some p \<Rightarrow> if p = [] then ''subtitle'' else p) @ ''.srt''
      in (download, text))"

section \<open>Runs of the component\<close>

text \<open>
  What can happen to the component: the picker or a drop delivers files, a button is
  clicked, or an await of an analysis in flight settles. A button can be clicked only
  while it is rendered: remove while a file is held, start while a file is held and the
  status is \<open>idle\<close>, retry while the status is \<open>error\<close>. The drop zone and the file input
  are always rendered.
\<close>

datatype event =
    FileChange "File list"
  | Drop "File list"
  | Remove
  | Start
  | Retry
  | ReadSettled nat "string + string"
  | TranscribeSettled nat response

definition step :: "env \<Rightarrow> event \<Rightarrow> world \<Rightarrow> world option" where
  "step ev e w =
     (case e of
        FileChange files \<Rightarrow> Some (handleFileChange files w)
      | Drop files \<Rightarrow> Some (handleDrop files w)
      | Remove \<Rightarrow> if file w = None then None else Some (onClick_remove w)
      | Start \<Rightarrow>
          if file w = None then None
          else if status (processingState w) = idle then Some (processAudio w) else None
      | Retry \<Rightarrow>
          if status (processingState w) = error then Some (onClick_retry w) else None
      | ReadSettled i r \<Rightarrow>
          if i < length (jobs w) then
            if job_stage (jobs w ! i) = reading then Some (processAudio_read ev i r w) else None
          else None
      | TranscribeSettled i r \<Rightarrow>
          if i < length (jobs w) then
            if job_stage (jobs w ! i) = transcribing then Some (processAudio_done ev i r w)
            else None
          else None)"

fun run :: "env \<Rightarrow> event list \<Rightarrow> world \<Rightarrow> world option" where
  "run ev [] w = Some w"
| "run ev (e # es) w = (case step ev e w of None \<Rightarrow> None | Some w' \<Rightarrow> run ev es w')"

section \<open>Vocabulary of the statements\<close>

text \<open>
  A field of a timestamp written with exactly two or three decimal digits, the number a
  run of digits denotes, and the shape \<open>DD:DD:DD,DDD\<close>.
\<close>

definition two_digits :: "nat \<Rightarrow> string" where
  "two_digits n = [digit_char (n div 10), digit_char (n mod 10)]"

definition three_digits :: "nat \<Rightarrow> string" where
  "three_digits n = [digit_char (n div 100), digit_char (n div 10 mod 10), digit_char (n mod 10)]"

definition is_digit :: "char \<Rightarrow> bool" where
  "is_digit c = (c \<in> set ''0123456789'')"

definition digit_value :: "char \<Rightarrow> nat" where
  "digit_value c = of_char c - 48"

definition field_value :: "string \<Rightarrow> nat" where
  "field_value s = fold (\<lambda>c n. 10 * n + digit_value c) s 0"

definition timestamp_shape :: "string \<Rightarrow> bool" where
  "timestamp_shape s =
     (length s = 12 \<and>
      list_all is_digit (take 2 s) \<and> s ! 2 = CHR '':'' \<and>
      list_all is_digit (take 2 (drop 3 s)) \<and> s ! 5 = CHR '':'' \<and>
      list_all is_digit (take 2 (drop 6 s)) \<and> s ! 8 = CHR '','' \<and>
      list_all is_digit (drop 9 s))"

text \<open>The state a selection that is accepted leaves behind.\<close>

definition selected :: "File \<Rightarrow> world \<Rightarrow> world" where
  "selected f w =
     w\<lparr>file := Some f, audioUrl := Some f, segments := [],
       processingState := \<lparr>status = idle, message = None\<rparr>\<rparr>"

text \<open>The key \<open>processAudio\<close> passes on: the configured one, or the empty string.\<close>

definition api_key :: "env \<Rightarrow> string" where
  "api_key ev = (case API_KEY ev of None \<Rightarrow> [] | Some k \<Rightarrow> k)"

text \<open>
  An element of the parsed array with the member \<open>id\<close> set to a value of one's choice
  (an element that is not an object has no members and stays as it is).
\<close>

definition with_id :: "(json \<Rightarrow> json) \<Rightarrow> json \<Rightarrow> json" where
  "with_id g item =
     (case item of JObject members \<Rightarrow> JObject (members @ [(''id'', g item)]) | _ \<Rightarrow> item)"

text \<open>
  A service and a parser for the examples of the mapping. The first answers with an
  array that is out of order in time, carries an \<open>id\<close> and ends with an element that is
  no object; the second answers with an array whose only element is \<open>null\<close>.
\<close>

definition unsorted_service :: "request \<Rightarrow> response" where
  "unsorted_service req = Response (Some ''[b,a,5]'')"

definition unsorted_parse :: json_parse where
  "unsorted_parse t =
     (if t = ''[b,a,5]''
      then Inr (JArray
        [JObject [(''id'', JNumber 42), (''startMs'', JNumber 5000), (''endMs'', JNumber 6000),
                  (''original'', JString ''b''), (''translation'', JString ''B'')],
         JObject [(''startMs'', JNumber 0), (''endMs'', JNumber 1000),
                  (''original'', JString ''a''), (''translation'', JString ''A'')],
         JNumber 5])
      else Inl ''SyntaxError'')"

definition null_service :: "request \<Rightarrow> response" where
  "null_service req = Response (Some ''[null]'')"

definition null_parse :: json_parse where
  "null_parse t = (if t = ''[null]'' then Inr (JArray [JNull]) else Inl ''SyntaxError'')"

text \<open>The invariant of the data model: segments are non-empty only when completed.\<close>

definition invariant :: "world \<Rightarrow> bool" where
  "invariant w = (segments w = [] \<or> status (processingState w) = completed)"

text \<open>
  A run in which no analysis is started while another is in flight, and the invariant
  strengthened so that such runs preserve it.
\<close>

fun single_flight :: "env \<Rightarrow> event list \<Rightarrow> world \<Rightarrow> bool" where
  "single_flight ev [] w = True"
| "single_flight ev (e # es) w =
     ((if e = Start then jobs w = [] else True) \<and>
      (case step ev e w of None \<Rightarrow> True | Some w' \<Rightarrow> single_flight ev es w'))"

definition guarded :: "world \<Rightarrow> bool" where
  "guarded w = (length (jobs w) \<le> 1 \<and> (jobs w = [] \<or> segments w = []) \<and> invariant w)"

text \<open>
  Data of the examples: an environment with a key whose parser reads the text \<open>[{Hi}]\<close>
  as an array of one element and rejects every other text, two small audio files, and
  a run in which the second analysis is started while the first is in flight.
\<close>

definition example_env :: env where
  "example_env =
     \<lparr>API_KEY = Some ''key'',
      JSON_parse =
        (\<lambda>t. if t = ''[{Hi}]''
              then Inr (JArray [JObject [(''startMs'', JNumber 0), (''endMs'', JNumber 1000),
                                         (''original'', JString ''Hi''),
                                         (''translation'', JString ''Ho'')]])
              else Inl ''SyntaxError'')\<rparr>"

definition file_a :: File where
  "file_a = \<lparr>name = ''a.mp3'', type_file = ''audio/mpeg'', size_file = 1000\<rparr>"

definition file_b :: File where
  "file_b = \<lparr>name = ''b.mp3'', type_file = ''audio/mpeg'', size_file = 2000\<rparr>"

text \<open>
  The same run with the reading of file b finished before the answer for file a
  arrives, and an answer for file b whose text is absent.
\<close>

definition overlap_absent_trace :: "event list" where
  "overlap_absent_trace =
     [FileChange [file_a],
      Start,
      ReadSettled 0 (Inr ''QUJD''),
      Drop [file_b],
      Start,
      ReadSettled 1 (Inr ''REVG''),
      TranscribeSettled 0 (Response (Some ''[{Hi}]'')),
      TranscribeSettled 0 (Response None)]"

definition overlap_trace :: "event list" where
  "overlap_trace =
     [FileChange [file_a],
      Start,
      ReadSettled 0 (Inr ''QUJD''),
      Drop [file_b],
      Start,
      TranscribeSettled 0 (Response (Some ''[{Hi}]'')),
      ReadSettled 0 (Inr ''REVG'')]"

section \<open>Properties of the time formatter\<close>

lemma digit_cases: "d < 10 \<Longrightarrow> d \<in> {0, 1, 2, 3, 4, 5, 6, 7, 8, 9::nat}"
  by auto

lemma digit_char_is_digit: "d < 10 \<Longrightarrow> is_digit (digit_char d)"
  using digit_cases [of d] by (auto simp: is_digit_def digit_char_def)

lemma digit_value_digit_char: "d < 10 \<Longrightarrow> digit_value (digit_char d) = d"
  using digit_cases [of d] by (auto simp: digit_value_def digit_char_def)

lemma digit_char_0: "digit_char 0 = CHR ''0''"
  by (simp add: digit_char_def)

lemma decimal_one: "n < 10 \<Longrightarrow> decimal n = [digit_char n]"
  by (simp add: decimal.simps)

lemma decimal_two:
  "10 \<le> n \<Longrightarrow> n < 100 \<Longrightarrow> decimal n = [digit_char (n div 10), digit_char (n mod 10)]"
  by (subst decimal.simps) (simp add: decimal_one)

lemma decimal_three:
  "100 \<le> n \<Longrightarrow> n < 1000 \<Longrightarrow>
     decimal n = [digit_char (n div 100), digit_char (n div 10 mod 10), digit_char (n mod 10)]"
  by (subst decimal.simps) (simp add: decimal_two div_mult2_eq [symmetric])

text \<open>Padding a number below 100 to two places, and one below 1000 to three.\<close>

lemma pad_two: "n < 100 \<Longrightarrow> padStart 2 ''0'' (toString (Number n)) = two_digits n"
proof (cases "n < 10")
  case True
  then show ?thesis
    by (simp add: padStart_def toString_def decimal_one two_digits_def digit_char_0)
next
  case False
  assume "n < 100"
  with False show ?thesis
    by (simp add: padStart_def toString_def decimal_two two_digits_def)
qed

lemma pad_three: "n < 1000 \<Longrightarrow> padStart 3 ''0'' (toString (Number n)) = three_digits n"
proof -
  assume n: "n < 1000"
  consider "n < 10" | "10 \<le> n" "n < 100" | "100 \<le> n" by linarith
  then show ?thesis
  proof cases
    case 1
    then show ?thesis
      by (simp add: padStart_def toString_def decimal_one three_digits_def digit_char_0
          numeral_3_eq_3)
  next
    case 2
    then show ?thesis
      by (simp add: padStart_def toString_def decimal_two three_digits_def digit_char_0)
  next
    case 3
    with n show ?thesis
      by (simp add: padStart_def toString_def decimal_three three_digits_def)
  qed
qed

text \<open>Inside the range of time values the four fields are those of the UTC clock.\<close>

lemma formatTime_fields:
  assumes "\<bar>ms\<bar> \<le> 8640000000000000"
  shows "formatTime ms =
           two_digits (nat (ms div 3600000 mod 24)) @ '':'' @
           two_digits (nat (ms div 60000 mod 60)) @ '':'' @
           two_digits (nat (ms div 1000 mod 60)) @ '','' @
           three_digits (nat (ms mod 1000))"
proof -
  have h: "nat (ms div 3600000 mod 24) < 100" by simp
  have m: "nat (ms div 60000 mod 60) < 100" by simp
  have s: "nat (ms div 1000 mod 60) < 100" by simp
  have f: "nat (ms mod 1000) < 1000" by simp
  show ?thesis
    using assms
    by (simp add: formatTime_def new_Date_def getUTCHours_def getUTCMinutes_def
        getUTCSeconds_def getUTCMilliseconds_def pad_two [OF h] pad_two [OF m] pad_two [OF s]
        pad_three [OF f] Let_def)
qed

text \<open>Outside that range every field is the text of \<open>NaN\<close>.\<close>

lemma formatTime_invalid:
  "8640000000000000 < \<bar>ms\<bar> \<Longrightarrow> formatTime ms = ''NaN:NaN:NaN,NaN''"
  by (simp add: formatTime_def new_Date_def getUTCHours_def getUTCMinutes_def
      getUTCSeconds_def getUTCMilliseconds_def toString_def padStart_def Let_def)

lemma two_digits_shape: "n < 100 \<Longrightarrow> list_all is_digit (two_digits n)"
  by (simp add: two_digits_def digit_char_is_digit)

lemma three_digits_shape: "n < 1000 \<Longrightarrow> list_all is_digit (three_digits n)"
  by (simp add: three_digits_def digit_char_is_digit)

lemma field_value_two_digits: "n < 100 \<Longrightarrow> field_value (two_digits n) = n"
  by (simp add: field_value_def two_digits_def digit_value_digit_char)

text \<open>
  Claim C8. \<open>formatTime(0)\<close> is \<open>00:00:00,000\<close>, \<open>formatTime(3661005)\<close> is \<open>01:01:01,005\<close>
  and \<open>formatTime(59999)\<close> is \<open>00:00:59,999\<close>; the text is the hours, minutes and seconds
  of the UTC decomposition, each padded with zeros to two digits, and the milliseconds
  padded to three, joined as \<open>HH:MM:SS,mmm\<close> (for every \<open>ms\<close> that is a time value).
\<close>

theorem formatTime_examples:
  "formatTime 0 = ''00:00:00,000'' \<and>
   formatTime 3661005 = ''01:01:01,005'' \<and>
   formatTime 59999 = ''00:00:59,999'' \<and>
   (\<bar>ms\<bar> \<le> 8640000000000000 \<longrightarrow>
      formatTime ms =
        two_digits (nat (ms div 3600000 mod 24)) @ '':'' @
        two_digits (nat (ms div 60000 mod 60)) @ '':'' @
        two_digits (nat (ms div 1000 mod 60)) @ '','' @
        three_digits (nat (ms mod 1000)))"
proof -
  have "formatTime 0 = ''00:00:00,000''" by code_simp
  moreover have "formatTime 3661005 = ''01:01:01,005''" by code_simp
  moreover have "formatTime 59999 = ''00:00:59,999''" by code_simp
  ultimately show ?thesis using formatTime_fields [of ms] by blast
qed

theorem formatTime_examples_witness:
  "\<bar>7322010::int\<bar> \<le> 8640000000000000 \<and>
   formatTime 7322010 =
     two_digits 2 @ '':'' @ two_digits 2 @ '':'' @ two_digits 2 @ '','' @ three_digits 10"
  using formatTime_examples [of 7322010] by simp

text \<open>
  Claim C9, as amended. For every integer \<open>ms\<close> from 0 up to 8640000000000000 (the
  largest time value of a date), \<open>formatTime\<close> returns a text of the shape \<open>DD:DD:DD,DDD\<close>
  whose hours field is \<open>floor(ms / 3600000) mod 24\<close>, so that the hours wrap around from
  24 hours on: \<open>formatTime(86400000)\<close> is \<open>00:00:00,000\<close>.
\<close>

theorem formatTime_hours_wrap:
  assumes "0 \<le> ms" and "ms \<le> 8640000000000000"
  shows "timestamp_shape (formatTime ms) \<and>
         field_value (take 2 (formatTime ms)) = nat (ms div 3600000 mod 24) \<and>
         formatTime 86400000 = ''00:00:00,000''"
proof -
  from assms have range: "\<bar>ms\<bar> \<le> 8640000000000000" by simp
  have h: "nat (ms div 3600000 mod 24) < 100" by simp
  have m: "nat (ms div 60000 mod 60) < 100" by simp
  have s: "nat (ms div 1000 mod 60) < 100" by simp
  have f: "nat (ms mod 1000) < 1000" by simp
  have len2: "\<And>n. length (two_digits n) = 2" by (simp add: two_digits_def)
  have len3: "\<And>n. length (three_digits n) = 3" by (simp add: three_digits_def)
  have shape: "timestamp_shape (formatTime ms)"
    unfolding formatTime_fields [OF range] timestamp_shape_def
    using two_digits_shape [OF h] two_digits_shape [OF m] two_digits_shape [OF s]
      three_digits_shape [OF f]
    by (simp add: len2 len3 nth_append)
  have hours: "field_value (take 2 (formatTime ms)) = nat (ms div 3600000 mod 24)"
    unfolding formatTime_fields [OF range]
    by (simp add: len2 field_value_two_digits [OF h])
  have day: "formatTime 86400000 = ''00:00:00,000''" by code_simp
  from shape hours day show ?thesis by blast
qed

theorem formatTime_hours_wrap_witness:
  "(0::int) \<le> 90061001 \<and> (90061001::int) \<le> 8640000000000000 \<and>
   timestamp_shape (formatTime 90061001) \<and>
   field_value (take 2 (formatTime 90061001)) = 1"
  using formatTime_hours_wrap [of 90061001] by simp

text \<open>
  Claim C9 as stated fails one millisecond past the largest time value: the date is
  invalid there and every field is \<open>NaN\<close>.
\<close>

theorem formatTime_invalid_date_counterexample:
  "(0::int) \<le> 8640000000000001 \<and>
   formatTime 8640000000000001 = ''NaN:NaN:NaN,NaN'' \<and>
   \<not> timestamp_shape (formatTime 8640000000000001)"
proof -
  have "formatTime 8640000000000001 = ''NaN:NaN:NaN,NaN''" by code_simp
  moreover have "\<not> timestamp_shape (formatTime 8640000000000001)" by code_simp
  ultimately show ?thesis by simp
qed

section \<open>Properties of the subtitle serializer\<close>

lemma generateSRT_empty: "generateSRT [] = []"
  by (simp add: generateSRT_def)

text \<open>
  Claim C1, as amended. For the two segments of the example, \<open>generateSRT\<close> returns the
  two blocks separated by exactly one blank line, and the text ends with the line feed
  that closes the last block: one line feed follows the final translation line.
\<close>

theorem generateSRT_two_segments:
  "generateSRT
     [\<lparr>id_seg = 1, startMs = 0, endMs = 1000, original = ''Hi'',
       translation = [CHR 0xE5, CHR 0x97, CHR 0xA8]\<rparr>,
      \<lparr>id_seg = 2, startMs = 1000, endMs = 2500, original = ''Bye'',
       translation = [CHR 0xE5, CHR 0x86, CHR 0x8D, CHR 0xE8, CHR 0xA7, CHR 0x81]\<rparr>] =
   ''1\<newline>00:00:00,000 --> 00:00:01,000\<newline>Hi\<newline>'' @ [CHR 0xE5, CHR 0x97, CHR 0xA8] @
   ''\<newline>\<newline>2\<newline>00:00:01,000 --> 00:00:02,500\<newline>Bye\<newline>'' @
   [CHR 0xE5, CHR 0x86, CHR 0x8D, CHR 0xE8, CHR 0xA7, CHR 0x81] @ ''\<newline>''"
  by code_simp

text \<open>
  Claim C1 as stated fails: the text returned is not the one that stops at the final
  translation line.
\<close>

theorem generateSRT_trailing_counterexample:
  "generateSRT
     [\<lparr>id_seg = 1, startMs = 0, endMs = 1000, original = ''Hi'',
       translation = [CHR 0xE5, CHR 0x97, CHR 0xA8]\<rparr>,
      \<lparr>id_seg = 2, startMs = 1000, endMs = 2500, original = ''Bye'',
       translation = [CHR 0xE5, CHR 0x86, CHR 0x8D, CHR 0xE8, CHR 0xA7, CHR 0x81]\<rparr>] \<noteq>
   ''1\<newline>00:00:00,000 --> 00:00:01,000\<newline>Hi\<newline>'' @ [CHR 0xE5, CHR 0x97, CHR 0xA8] @
   ''\<newline>\<newline>2\<newline>00:00:01,000 --> 00:00:02,500\<newline>Bye\<newline>'' @
   [CHR 0xE5, CHR 0x86, CHR 0x8D, CHR 0xE8, CHR 0xA7, CHR 0x81]"
  by code_simp

section \<open>Properties of the download name\<close>

lemma split_str_first:
  "sep \<notin> set stem \<Longrightarrow> split_str sep (stem @ sep # rest) = stem # split_str sep rest"
  by (induction stem) auto

lemma download_name_no_file: "file w = None \<Longrightarrow> fst (handleDownloadSRT w) = ''subtitle.srt''"
  by (simp add: handleDownloadSRT_def Let_def)

text \<open>The download is named after the text in front of the first full stop of the name.\<close>

lemma download_name_stem:
  "file w = Some f \<Longrightarrow> name f = stem @ CHR ''.'' # rest \<Longrightarrow> CHR ''.'' \<notin> set stem \<Longrightarrow>
     stem \<noteq> [] \<Longrightarrow> fst (handleDownloadSRT w) = stem @ ''.srt''"
  by (simp add: handleDownloadSRT_def Let_def split_str_first)

text \<open>
  Claim C2 says that the download of \<open>my.audio.file.mp3\<close> is named \<open>my.audio.file.srt\<close>.
  The code cuts the name at its first full stop, not at its last: the download is
  named \<open>my.srt\<close>.
\<close>

theorem download_name_first_dot:
  "fst (handleDownloadSRT
          (w\<lparr>file := Some \<lparr>name = ''my.audio.file.mp3'', type_file = ''audio/mpeg'',
                            size_file = 1024\<rparr>\<rparr>)) = ''my.srt''"
  by (simp add: handleDownloadSRT_def Let_def)

section \<open>Properties of the file handlers\<close>

text \<open>
  Claim C3. A file of at most 15 * 1024 * 1024 bytes is accepted by the picker's handler
  whatever its type; a larger one is rejected with the alert and nothing else changes
  (the file, the segments and the processing state stay as they were). The drop handler
  does the same for a file whose media type begins with \<open>audio/\<close> or \<open>video/\<close>, and
  rejects any other with its own alert. Neither handler invokes the transcription
  client or starts an analysis.
\<close>

theorem file_validation:
  "(size_file f \<le> 15 * 1024 * 1024 \<longrightarrow> handleFileChange (f # fs) w = selected f w) \<and>
   (15 * 1024 * 1024 < size_file f \<longrightarrow>
      handleFileChange (f # fs) w = w\<lparr>alerts := alerts w @ [msg_too_large]\<rparr> \<and>
      file (handleFileChange (f # fs) w) = file w \<and>
      segments (handleFileChange (f # fs) w) = segments w \<and>
      processingState (handleFileChange (f # fs) w) = processingState w) \<and>
   handleDrop (f # fs) w =
     (if startsWith (type_file f) ''audio/'' \<or> startsWith (type_file f) ''video/''
      then handleFileChange (f # fs) w
      else w\<lparr>alerts := alerts w @ [msg_invalid_drop]\<rparr>) \<and>
   transcribe_calls (handleFileChange files w) = transcribe_calls w \<and>
   sdk_calls (handleFileChange files w) = sdk_calls w \<and>
   jobs (handleFileChange files w) = jobs w \<and>
   transcribe_calls (handleDrop files w) = transcribe_calls w \<and>
   sdk_calls (handleDrop files w) = sdk_calls w \<and>
   jobs (handleDrop files w) = jobs w"
  by (simp add: handleFileChange_def handleDrop_def selected_def alert_def MAX_FILE_SIZE_def
      split: list.split)

theorem file_validation_witness:
  "handleFileChange
     [\<lparr>name = ''a.mp3'', type_file = ''audio/mpeg'', size_file = 15 * 1024 * 1024\<rparr>] initial =
   selected \<lparr>name = ''a.mp3'', type_file = ''audio/mpeg'', size_file = 15 * 1024 * 1024\<rparr> initial \<and>
   handleFileChange
     [\<lparr>name = ''a.mp3'', type_file = ''audio/mpeg'', size_file = 15 * 1024 * 1024 + 1\<rparr>] initial =
   initial\<lparr>alerts := alerts initial @ [msg_too_large]\<rparr> \<and>
   handleDrop
     [\<lparr>name = ''a.mp3'', type_file = ''audio/mpeg'', size_file = 15 * 1024 * 1024\<rparr>] initial =
   selected \<lparr>name = ''a.mp3'', type_file = ''audio/mpeg'', size_file = 15 * 1024 * 1024\<rparr> initial \<and>
   handleDrop
     [\<lparr>name = ''a.mp3'', type_file = ''audio/mpeg'', size_file = 15 * 1024 * 1024 + 1\<rparr>] initial =
   initial\<lparr>alerts := alerts initial @ [msg_too_large]\<rparr> \<and>
   handleDrop [\<lparr>name = ''a.txt'', type_file = ''text/plain'', size_file = 10\<rparr>] initial =
   initial\<lparr>alerts := alerts initial @ [msg_invalid_drop]\<rparr> \<and>
   handleFileChange [\<lparr>name = ''a.txt'', type_file = ''text/plain'', size_file = 10\<rparr>] initial =
   selected \<lparr>name = ''a.txt'', type_file = ''text/plain'', size_file = 10\<rparr> initial"
  using
    file_validation [where f = "\<lparr>name = ''a.mp3'', type_file = ''audio/mpeg'',
        size_file = 15 * 1024 * 1024\<rparr>" and fs = "[]" and w = initial]
    file_validation [where f = "\<lparr>name = ''a.mp3'', type_file = ''audio/mpeg'',
        size_file = 15 * 1024 * 1024 + 1\<rparr>" and fs = "[]" and w = initial]
    file_validation [where f = "\<lparr>name = ''a.txt'', type_file = ''text/plain'',
        size_file = 10\<rparr>" and fs = "[]" and w = initial]
  by (simp add: startsWith_def)

text \<open>Every selection that is accepted empties the segments and sets the status to idle.\<close>

lemma selection_resets:
  "segments (selected f w) = [] \<and> status (processingState (selected f w)) = idle"
  by (simp add: selected_def)

section \<open>Properties of the transcription client\<close>

text \<open>
  Claim C5. With an empty API key the transcription client fails with the
  configuration error, whatever the payload, the media type and the service, and it
  has made no call to the SDK: no client is constructed and no request goes out.
\<close>

theorem transcribeAudio_empty_key:
  "transcribeAudio service parse base64Audio mimeType [] = (Inl ConfigurationError, [])"
  by (simp add: transcribeAudio_def transcribeAudio_call_def)

lemma msg_no_response_nonempty: "msg_no_response \<noteq> []"
  by (simp add: msg_no_response_def)

lemma to_segment_not_null:
  "item \<noteq> JNull \<Longrightarrow>
     to_segment index item =
       Inr \<lparr>id_seg = index + 1,
            startMs = property item ''startMs'',
            endMs = property item ''endMs'',
            original = property item ''original'',
            translation = property item ''translation''\<rparr>"
  by (cases item) (simp_all add: to_segment_def)

text \<open>Without a null element the mapping returns a segment for each element.\<close>

lemma array_map_segments:
  "JNull \<notin> set items \<Longrightarrow>
     \<exists>segs. array_map to_segment n items = Inr segs \<and>
       length segs = length items \<and>
       map id_seg segs = [Suc n..<Suc (n + length items)] \<and>
       map startMs segs = map (\<lambda>item. property item ''startMs'') items \<and>
       map endMs segs = map (\<lambda>item. property item ''endMs'') items \<and>
       map original segs = map (\<lambda>item. property item ''original'') items \<and>
       map translation segs = map (\<lambda>item. property item ''translation'') items"
proof (induction items arbitrary: n)
  case Nil
  show ?case by simp
next
  case (Cons item items)
  from Cons.prems have item: "item \<noteq> JNull" and rest: "JNull \<notin> set items"
    by auto
  from Cons.IH [OF rest, of "Suc n"] obtain segs where
    segs: "array_map to_segment (Suc n) items = Inr segs" "length segs = length items"
      "map id_seg segs = [Suc (Suc n)..<Suc (Suc n + length items)]"
      "map startMs segs = map (\<lambda>item. property item ''startMs'') items"
      "map endMs segs = map (\<lambda>item. property item ''endMs'') items"
      "map original segs = map (\<lambda>item. property item ''original'') items"
      "map translation segs = map (\<lambda>item. property item ''translation'') items"
    by blast
  have ids: "[Suc n..<Suc (n + length (item # items))] =
      Suc n # [Suc (Suc n)..<Suc (Suc n + length items)]"
    by (simp add: upt_conv_Cons del: upt_Suc)
  show ?case
    unfolding ids using segs by (simp add: to_segment_not_null [OF item] del: upt_Suc)
qed

text \<open>With a null element the mapping throws.\<close>

lemma array_map_null:
  "JNull \<in> set items \<Longrightarrow> array_map to_segment n items = Inl (ParseError msg_null_property)"
proof (induction items arbitrary: n)
  case Nil
  then show ?case by simp
next
  case (Cons item items)
  show ?case
  proof (cases "item = JNull")
    case True
    then show ?thesis by (simp add: to_segment_def)
  next
    case False
    with Cons.prems have "JNull \<in> set items" by simp
    from Cons.IH [OF this, of "Suc n"] show ?thesis
      by (simp add: to_segment_not_null [OF False])
  qed
qed

text \<open>The member \<open>id\<close> of an element has no part in its segment.\<close>

lemma to_segment_with_id: "to_segment index (with_id g item) = to_segment index item"
  by (cases item) (simp_all add: to_segment_def with_id_def property_def)

lemma array_map_with_id:
  "array_map to_segment n (map (with_id g) items) = array_map to_segment n items"
  by (induction items arbitrary: n) (simp_all add: to_segment_with_id cong: sum.case_cong)

text \<open>
  Claim C7, as amended. When the response text is parsed to an array that has no null
  element, the client returns one segment per element, in the order of the array: the
  ids are 1, 2, ... by position, the four other fields are what the reads of the
  element's members give, whatever their timestamps, and the result is the same when
  the member \<open>id\<close> of the elements is set to any other value.
\<close>

theorem mapped_segments_sequential:
  assumes "apiKey \<noteq> []"
    and "service \<lparr>model = MODEL_NAME, inline_mimeType = mimeType, inline_data = base64Audio,
                   directive = ''Generate subtitles for this audio.''\<rparr> = Response (Some t)"
    and "t \<noteq> []"
    and "parse t = Inr (JArray items)"
    and "JNull \<notin> set items"
  shows "\<exists>segs.
           transcribeAudio service parse base64Audio mimeType apiKey =
             (Inr segs,
              [new_GoogleGenAI apiKey,
               generateContent
                 \<lparr>model = MODEL_NAME, inline_mimeType = mimeType, inline_data = base64Audio,
                  directive = ''Generate subtitles for this audio.''\<rparr>]) \<and>
           length segs = length items \<and>
           map id_seg segs = [1..<Suc (length items)] \<and>
           map startMs segs = map (\<lambda>item. property item ''startMs'') items \<and>
           map endMs segs = map (\<lambda>item. property item ''endMs'') items \<and>
           map original segs = map (\<lambda>item. property item ''original'') items \<and>
           map translation segs = map (\<lambda>item. property item ''translation'') items \<and>
           fst (transcribeAudio service
                  (\<lambda>s. case parse s of
                          Inl m \<Rightarrow> Inl m
                        | Inr parsed \<Rightarrow>
                            (case parsed of
                               JArray elements \<Rightarrow> Inr (JArray (map (with_id g) elements))
                             | _ \<Rightarrow> Inr parsed))
                  base64Audio mimeType apiKey) = Inr segs"
proof -
  from array_map_segments [OF assms(5), of 0] obtain segs where
    segs: "array_map to_segment 0 items = Inr segs" "length segs = length items"
      "map id_seg segs = [Suc 0..<Suc (0 + length items)]"
      "map startMs segs = map (\<lambda>item. property item ''startMs'') items"
      "map endMs segs = map (\<lambda>item. property item ''endMs'') items"
      "map original segs = map (\<lambda>item. property item ''original'') items"
      "map translation segs = map (\<lambda>item. property item ''translation'') items"
    by blast
  have client: "transcribeAudio service parse base64Audio mimeType apiKey =
             (Inr segs,
              [new_GoogleGenAI apiKey,
               generateContent
                 \<lparr>model = MODEL_NAME, inline_mimeType = mimeType, inline_data = base64Audio,
                  directive = ''Generate subtitles for this audio.''\<rparr>])"
    using assms(1-4) segs(1)
    by (simp add: transcribeAudio_def transcribeAudio_call_def transcribeAudio_resume_def
        parsed_map_def Let_def)
  have other: "fst (transcribeAudio service
                  (\<lambda>s. case parse s of
                          Inl m \<Rightarrow> Inl m
                        | Inr parsed \<Rightarrow>
                            (case parsed of
                               JArray elements \<Rightarrow> Inr (JArray (map (with_id g) elements))
                             | _ \<Rightarrow> Inr parsed))
                  base64Audio mimeType apiKey) = Inr segs"
    using assms(1-4) segs(1)
    by (simp add: transcribeAudio_def transcribeAudio_call_def transcribeAudio_resume_def
        parsed_map_def array_map_with_id Let_def)
  from client other segs(2-7) show ?thesis
    by auto
qed

theorem mapped_segments_sequential_witness:
  "transcribeAudio unsorted_service unsorted_parse ''QUJD'' ''audio/mpeg'' ''key'' =
   (Inr [\<lparr>id_seg = 1, startMs = Some (JNumber 5000), endMs = Some (JNumber 6000),
          original = Some (JString ''b''), translation = Some (JString ''B'')\<rparr>,
         \<lparr>id_seg = 2, startMs = Some (JNumber 0), endMs = Some (JNumber 1000),
          original = Some (JString ''a''), translation = Some (JString ''A'')\<rparr>,
         \<lparr>id_seg = 3, startMs = None, endMs = None, original = None, translation = None\<rparr>],
    [new_GoogleGenAI ''key'',
     generateContent
       \<lparr>model = MODEL_NAME, inline_mimeType = ''audio/mpeg'', inline_data = ''QUJD'',
        directive = ''Generate subtitles for this audio.''\<rparr>])"
  using mapped_segments_sequential [where apiKey = "''key''" and service = unsorted_service
      and mimeType = "''audio/mpeg''" and base64Audio = "''QUJD''" and t = "''[b,a,5]''"
      and parse = unsorted_parse
      and items = "[JObject [(''id'', JNumber 42), (''startMs'', JNumber 5000),
                             (''endMs'', JNumber 6000), (''original'', JString ''b''),
                             (''translation'', JString ''B'')],
                    JObject [(''startMs'', JNumber 0), (''endMs'', JNumber 1000),
                             (''original'', JString ''a''), (''translation'', JString ''A'')],
                    JNumber 5]"]
  by (simp add: unsorted_service_def unsorted_parse_def transcribeAudio_def
      transcribeAudio_call_def transcribeAudio_resume_def parsed_map_def to_segment_def
      property_def Let_def)

text \<open>
  Claim C7 as stated fails for an array with a null element: the text \<open>[null]\<close> is
  parsed to an array of one element, the mapping throws at the read of its first
  member, and the client returns no segment.
\<close>

theorem null_element_counterexample:
  "null_parse ''[null]'' = Inr (JArray [JNull]) \<and>
   transcribeAudio null_service null_parse ''QUJD'' ''audio/mpeg'' ''key'' =
     (Inl (ParseError msg_null_property),
      [new_GoogleGenAI ''key'',
       generateContent
         \<lparr>model = MODEL_NAME, inline_mimeType = ''audio/mpeg'', inline_data = ''QUJD'',
          directive = ''Generate subtitles for this audio.''\<rparr>])"
  by (simp add: null_service_def null_parse_def transcribeAudio_def transcribeAudio_call_def
      transcribeAudio_resume_def parsed_map_def to_segment_def Let_def)

section \<open>Properties of the analysis\<close>

text \<open>
  Claim C10. An analysis started on a file of empty media type invokes the
  transcription client with \<open>audio/mp3\<close>, and one started on a file of any other type
  with that type; with a key, the request that goes out carries the same media type.
\<close>

theorem media_type_fallback:
  assumes "file w = Some f" and "status (processingState w) = idle"
  shows "\<exists>w'. run ev [Start, ReadSettled (length (jobs w)) (Inr payload)] w = Some w' \<and>
           transcribe_calls w' =
             transcribe_calls w @
               [(payload, if type_file f = [] then ''audio/mp3'' else type_file f, api_key ev)] \<and>
           (api_key ev \<noteq> [] \<longrightarrow>
              sdk_calls w' =
                sdk_calls w @
                  [new_GoogleGenAI (api_key ev),
                   generateContent
                     \<lparr>model = MODEL_NAME,
                      inline_mimeType = (if type_file f = [] then ''audio/mp3'' else type_file f),
                      inline_data = payload,
                      directive = ''Generate subtitles for this audio.''\<rparr>])"
  using assms
  by (auto simp: step_def processAudio_def processAudio_read_def transcribeAudio_call_def
      api_key_def Let_def processAudio_catch_def remove_job_def split: option.splits)

theorem media_type_fallback_witness:
  "map_option transcribe_calls
     (run example_env [Start, ReadSettled 0 (Inr ''QUJD'')]
        (selected \<lparr>name = ''clip'', type_file = [], size_file = 10\<rparr> initial)) =
   Some [(''QUJD'', ''audio/mp3'', ''key'')] \<and>
   map_option transcribe_calls
     (run example_env [Start, ReadSettled 0 (Inr ''QUJD'')] (selected file_a initial)) =
   Some [(''QUJD'', ''audio/mpeg'', ''key'')]"
  using
    media_type_fallback [where w = "selected \<lparr>name = ''clip'', type_file = [], size_file = 10\<rparr> initial"
      and f = "\<lparr>name = ''clip'', type_file = [], size_file = 10\<rparr>" and ev = example_env
      and payload = "''QUJD''"]
    media_type_fallback [where w = "selected file_a initial" and f = file_a and ev = example_env
      and payload = "''QUJD''"]
  by (auto simp: selected_def initial_def example_env_def api_key_def file_a_def)

section \<open>Properties of runs\<close>

lemma guarded_initial: "guarded initial"
  by (simp add: guarded_def invariant_def initial_def)

lemma guarded_step:
  assumes "guarded w" and "step ev e w = Some w'" and "e = Start \<Longrightarrow> jobs w = []"
  shows "guarded w'"
proof (cases e)
  case (FileChange files)
  with assms show ?thesis
    by (auto simp: step_def guarded_def invariant_def handleFileChange_def alert_def
        split: list.splits if_splits)
next
  case (Drop files)
  with assms show ?thesis
    by (auto simp: step_def guarded_def invariant_def handleDrop_def alert_def
        split: list.splits if_splits)
next
  case Remove
  with assms show ?thesis
    by (auto simp: step_def guarded_def invariant_def onClick_remove_def split: if_splits)
next
  case Start
  with assms show ?thesis
    by (auto simp: step_def guarded_def invariant_def processAudio_def
        split: if_splits option.splits)
next
  case Retry
  with assms show ?thesis
    by (auto simp: step_def guarded_def invariant_def onClick_retry_def split: if_splits)
next
  case (ReadSettled i r)
  with assms show ?thesis
    by (auto simp: step_def guarded_def invariant_def processAudio_read_def
        processAudio_catch_def remove_job_def transcribeAudio_call_def Let_def
        split: if_splits sum.splits option.splits)
next
  case (TranscribeSettled i r)
  with assms show ?thesis
    by (auto simp: step_def guarded_def invariant_def processAudio_done_def
        processAudio_catch_def remove_job_def
        split: if_splits sum.splits option.splits)
qed

lemma guarded_run:
  "guarded w \<Longrightarrow> run ev es w = Some w' \<Longrightarrow> single_flight ev es w \<Longrightarrow> guarded w'"
proof (induction es arbitrary: w)
  case Nil
  then show ?case by simp
next
  case (Cons e es)
  from Cons.prems(2) obtain w1 where s: "step ev e w = Some w1" and r: "run ev es w1 = Some w'"
    by (auto split: option.splits)
  from Cons.prems(3) s have sf: "single_flight ev es w1" and st: "e = Start \<Longrightarrow> jobs w = []"
    by (auto split: if_splits)
  from guarded_step [OF Cons.prems(1) s st] have "guarded w1" .
  from Cons.IH [OF this r sf] show ?case .
qed

text \<open>
  As long as no analysis is started while another is in flight, every state reached
  from the initial one has non-empty segments only when the status is completed.
\<close>

lemma invariant_single_flight:
  "run ev es initial = Some w \<Longrightarrow> single_flight ev es initial \<Longrightarrow> invariant w"
  using guarded_run [OF guarded_initial, of ev es w] by (simp add: guarded_def)

text \<open>
  Claim C4 says that in every state reached by the actions of the user the segments are
  non-empty only when the status is completed. The run below reaches a state that
  breaks it: file a is picked and its analysis started; while the service works, file b
  is dropped, which sets the status back to idle, and its analysis is started; the
  answer for file a then arrives and sets its segments, and the reading of file b
  finishes and sets the status to analyzing, over the segments of file a.
\<close>

theorem overlapping_analyses:
  "map_option
     (\<lambda>w. (map_option name (file w), status (processingState w), map original (segments w),
           invariant w))
     (run example_env overlap_trace initial) =
   Some (Some ''b.mp3'', analyzing, [Some (JString ''Hi'')], False)"
  by (simp add: overlap_trace_def example_env_def file_a_def file_b_def initial_def step_def
      handleFileChange_def handleDrop_def processAudio_def processAudio_read_def
      processAudio_done_def transcribeAudio_call_def transcribeAudio_resume_def remove_job_def
      parsed_map_def to_segment_def property_def startsWith_def MAX_FILE_SIZE_def invariant_def
      Let_def)

text \<open>
  A response whose text is absent or empty makes the transcription client fail with the
  service error, and the continuation of \<open>processAudio\<close> then leaves the segments as
  they were and sets the status to error with that error's message. On a run in which
  no analysis was started while another was in flight the segments are empty when the
  response arrives, and so remain empty.
\<close>

lemma empty_response_leaves_segments:
  assumes "r = Response None \<or> r = Response (Some [])"
  shows "transcribeAudio_resume parse r = Inl (ServiceError msg_no_response) \<and>
         (apiKey \<noteq> [] \<and> (\<forall>req. service req = r) \<longrightarrow>
            fst (transcribeAudio service parse base64Audio mimeType apiKey) =
              Inl (ServiceError msg_no_response)) \<and>
         segments (processAudio_done ev i r w) = segments w \<and>
         processingState (processAudio_done ev i r w) =
           \<lparr>status = error, message = Some msg_no_response\<rparr> \<and>
         (run ev es initial = Some w \<and> single_flight ev es initial \<and> i < length (jobs w) \<longrightarrow>
            segments w = [] \<and> segments (processAudio_done ev i r w) = [])"
proof -
  have resume: "\<And>p. transcribeAudio_resume p r = Inl (ServiceError msg_no_response)"
    using assms by (auto simp: transcribeAudio_resume_def)
  have client: "apiKey \<noteq> [] \<and> (\<forall>req. service req = r) \<longrightarrow>
      fst (transcribeAudio service parse base64Audio mimeType apiKey) =
        Inl (ServiceError msg_no_response)"
    by (simp add: transcribeAudio_def transcribeAudio_call_def resume Let_def)
  have caught: "processAudio_done ev i r w =
      processAudio_catch (ServiceError msg_no_response) (remove_job i w)"
    by (simp add: processAudio_done_def resume)
  have segs: "segments (processAudio_done ev i r w) = segments w"
    by (simp add: caught processAudio_catch_def remove_job_def)
  have st: "processingState (processAudio_done ev i r w) =
      \<lparr>status = error, message = Some msg_no_response\<rparr>"
    by (simp add: caught processAudio_catch_def msg_no_response_nonempty)
  have empty: "segments w = []"
    if "run ev es initial = Some w" and "single_flight ev es initial" and "i < length (jobs w)"
  proof -
    from guarded_run [OF guarded_initial that(1) that(2)] have "guarded w" .
    with that(3) show ?thesis by (auto simp: guarded_def)
  qed
  from resume client segs st empty show ?thesis by simp
qed

text \<open>
  Claim C6 says that when the response text is absent the segments are left unchanged
  and remain empty. They are left unchanged, but they need not be empty: on the run
  below the analysis of file b is started while that of file a is in flight, the
  answer for file a sets its segments, and the answer for file b then comes without
  text. The status becomes error with the message of the service error, over the
  segments of file a.
\<close>

theorem empty_response_over_segments:
  "map_option
     (\<lambda>w. (map_option name (file w), processingState w, map original (segments w)))
     (run example_env overlap_absent_trace initial) =
   Some (Some ''b.mp3'', \<lparr>status = error, message = Some msg_no_response\<rparr>,
         [Some (JString ''Hi'')])"
  by (simp add: overlap_absent_trace_def example_env_def file_a_def file_b_def initial_def
      step_def handleFileChange_def handleDrop_def processAudio_def processAudio_read_def
      processAudio_done_def processAudio_catch_def transcribeAudio_call_def
      transcribeAudio_resume_def remove_job_def parsed_map_def to_segment_def property_def
      startsWith_def MAX_FILE_SIZE_def Let_def msg_no_response_nonempty)

end
